theory Spec2Isabelle
  imports
    Main
    "HOL-Library.Sublist"
    "HOL-Library.Multiset"
    "HOL-Library.Char_ord"
    "HOL-Library.List_Lexorder"
    "HOL-Library.Product_Lexorder"
begin

section \<open>The release tracker of variantdev/mod\<close>

text \<open>
  A shallow embedding of package \<open>releasetracker\<close>: the configuration types of
  \<open>types.go\<close> and the tracker itself (provider selection, the three providers, the
  extraction of version strings from a queried document, the parsing and sorting of
  versions, and \<open>Latest\<close>).

  Strings are byte lists, Go slices are lists, Go's \<open>(value, error)\<close> results are sums
  with the error on the left. A Go map is an association list: its order is the order in
  which one \<open>range\<close> loop visits the keys, which Go leaves unspecified, so a statement
  about a map holds for the map only when it holds for every order of the list.
\<close>

subsection \<open>Configuration (types.go)\<close>

record GetterJSONPath =
  JSONPath_Source :: string
  JSONPath_Versions :: string
  JSONPath_Description :: string

record GitTags =
  GitTags_Source :: string

record GitHubReleases =
  GitHubReleases_Host :: string
  GitHubReleases_Source :: string

record DockerImageTags =
  DockerImageTags_Source :: string

record VersionsFrom =
  JSONPath :: GetterJSONPath
  GitTags :: GitTags
  GitHubReleases :: GitHubReleases
  DockerImageTags :: DockerImageTags

record Spec =
  VersionsFrom :: VersionsFrom

subsection \<open>Documents and errors\<close>

text \<open>
  The dynamic values (\<open>interface{}\<close>) that a decoded document and a path query are made
  of. \<open>NMapS\<close> is \<open>map[string]interface{}\<close>, \<open>NMapI\<close> is
  \<open>map[interface{}]interface{}\<close>, \<open>NArr\<close> is \<open>[]interface{}\<close>; \<open>NOther\<close> stands
  for a value of any further dynamic type (a float, a time stamp), named by its rendering.
\<close>

datatype node =
    NNil
  | NBool bool
  | NInt int
  | NOther string
  | NStr string
  | NArr "node list"
  | NMapS "(string \<times> node) list"
  | NMapI "(node \<times> node) list"

text \<open>
  Errors are values. \<open>External\<close> is an error of a collaborator or of an imported
  package, handed on unchanged and known by its message; the others are the errors the
  tracker builds itself, one constructor for each \<open>fmt.Errorf\<close> call, carrying the
  call's arguments. \<open>TypeAssertionPanic\<close> is the run-time panic of the unchecked type
  assertion \<open>k.(string)\<close> on a key that is no string.
\<close>

datatype error =
    External string
  | ParsingVersion nat string error
  | NoSemverMatching string "string list"
  | UnexpectedResultType string node
  | ReturnedNothing string node
  | UnexpectedNodeType node
  | NoVersionsProvider
  | TypeAssertionPanic node

subsection \<open>Imported packages and collaborators\<close>

text \<open>
  The packages the tracker imports are not among its sources; what it calls of them is
  a parameter. \<open>'v\<close> is \<open>semver.Version\<close>, \<open>'c\<close> is \<open>semver.Constraints\<close>.
  \<open>ZeroVersion\<close> is the zero value of \<open>semver.Version\<close> (what \<open>var latestVer
  semver.Version\<close> holds). \<open>Quote\<close>, \<open>FormatValue\<close> and \<open>TypeName\<close> are the
  verbs \<open>%q\<close>, \<open>%v\<close> and \<open>%T\<close> of package \<open>fmt\<close>.
\<close>

record ('v, 'c) packages =
  NewVersion :: "string \<Rightarrow> error + 'v"
  VersionString :: "'v \<Rightarrow> string"
  LessThan :: "'v \<Rightarrow> 'v \<Rightarrow> bool"
  ZeroVersion :: "'v"
  NewConstraint :: "string \<Rightarrow> error + 'c"
  Check :: "'c \<Rightarrow> 'v \<Rightarrow> bool"
  Unmarshal :: "string \<Rightarrow> error + node"
  RecursivelyCastKeysToStrings :: "node \<Rightarrow> error + node"
  jsonpath_Get :: "string \<Rightarrow> node \<Rightarrow> error + node"
  Quote :: "string \<Rightarrow> string"
  FormatValue :: "node \<Rightarrow> string"
  TypeName :: "node \<Rightarrow> string"

text \<open>
  The tracker: its specification and its collaborators, each the function the tracker
  calls. \<open>cmdSite\<close> is \<open>CaptureStrings\<close>, from a program and its arguments to standard
  output, standard error and the error of the run (the command runner reports a non-zero
  exit status as such an error); \<open>dep\<close> is \<open>Resolve\<close>, \<open>fs\<close> is \<open>ReadFile\<close>,
  \<open>httpGetter\<close> is \<open>DoRequest\<close>.
\<close>

record Tracker =
  Spec :: Spec
  cmdSite :: "string \<Rightarrow> string list \<Rightarrow> string \<times> string \<times> error option"
  dep :: "string \<Rightarrow> error + string"
  fs :: "string \<Rightarrow> error + string"
  httpGetter :: "string \<Rightarrow> error + string"

record 'v Release =
  Semver :: "'v"
  Version :: string
  Description :: string

subsection \<open>Providers\<close>

datatype ReleaseProvider =
    execProvider string
  | getterJsonPathProvider GetterJSONPath
  | httpJsonPathProvider string string

definition newExecProvider :: "string \<Rightarrow> ReleaseProvider" where
  "newExecProvider cmd = execProvider cmd"

definition newGetterProvider :: "GetterJSONPath \<Rightarrow> ReleaseProvider" where
  "newGetterProvider spec = getterJsonPathProvider spec"

definition newDockerHubImageTagsProvider :: "DockerImageTags \<Rightarrow> ReleaseProvider" where
  "newDockerHubImageTagsProvider spec =
     httpJsonPathProvider
       (''https://registry.hub.docker.com/v2/repositories/'' @ DockerImageTags_Source spec @ ''/tags/'')
       ''$.results[*].name''"

definition newGitHubReleasesProvider :: "GitHubReleases \<Rightarrow> ReleaseProvider" where
  "newGitHubReleasesProvider spec =
     (let host = (if GitHubReleases_Host spec = [] then ''api.github.com''
                  else GitHubReleases_Host spec)
      in httpJsonPathProvider
           (''https://'' @ host @ ''/repos/'' @ GitHubReleases_Source spec @ ''/releases'')
           ''$[*].tag_name'')"

definition gitTagsCommand :: "string \<Rightarrow> string" where
  "gitTagsCommand source =
     ''git ls-remote --tags git://'' @ source
       @ ''.git | grep -v { | awk '' @ [CHR 0x27] @ ''{ print $2 }'' @ [CHR 0x27]
       @ '' | cut -d'' @ [CHR 0x27] @ ''/'' @ [CHR 0x27] @ '' -f 3''"

definition GetProvider :: "Tracker \<Rightarrow> error + ReleaseProvider" where
  "GetProvider p =
     (let versionsFrom = VersionsFrom (Spec p) in
      if JSONPath_Source (JSONPath versionsFrom) \<noteq> [] then
        Inr (newGetterProvider (JSONPath versionsFrom))
      else if DockerImageTags_Source (DockerImageTags versionsFrom) \<noteq> [] then
        Inr (newDockerHubImageTagsProvider (DockerImageTags versionsFrom))
      else if GitTags_Source (GitTags versionsFrom) \<noteq> [] then
        Inr (newExecProvider (gitTagsCommand (GitTags_Source (GitTags versionsFrom))))
      else if GitHubReleases_Source (GitHubReleases versionsFrom) \<noteq> [] then
        Inr (newGitHubReleasesProvider (GitHubReleases versionsFrom))
      else Inl NoVersionsProvider)"

subsection \<open>The command-output provider\<close>

text \<open>
  \<open>strings.Split s sep\<close> for a separator of one byte: the fields between the
  separators, one more than there are separators, so the empty string has one field.
\<close>

fun Split :: "char \<Rightarrow> string \<Rightarrow> string list" where
  "Split c [] = [[]]"
| "Split c (x # xs) =
     (if x = c then [] # Split c xs
      else (case Split c xs of [] \<Rightarrow> [[x]] | w # ws \<Rightarrow> (x # w) # ws))"

text \<open>
  \<open>exec\<close> returns, first, the lines it writes to the logger at verbosity 1 and, second,
  its result. Standard error is logged before the error of the run is looked at.
\<close>

definition exec :: "Tracker \<Rightarrow> string \<Rightarrow> string list \<times> (error + string list)" where
  "exec p cmd =
     (case cmdSite p ''sh'' [''-c'', cmd] of (stdout, stderr, err) \<Rightarrow>
        (if length stderr > 0 then [stderr] else [],
         case err of
           Some e \<Rightarrow> Inl e
         | None \<Rightarrow> Inr (filter (\<lambda>e. e \<noteq> []) (Split (CHR 0x0A) stdout))))"

subsection \<open>From version strings to releases\<close>

text \<open>
  The loop of \<open>versionStringsToSemvers\<close>, from index \<open>i\<close> on: it stops at the first
  string that does not parse, with the index, the string and the parser's error.
\<close>

fun parseVersionsFrom ::
  "('v, 'c, 'z) packages_scheme \<Rightarrow> nat \<Rightarrow> string list \<Rightarrow> error + 'v list" where
  "parseVersionsFrom L i [] = Inr []"
| "parseVersionsFrom L i (s # ss) =
     (case NewVersion L s of
        Inl err \<Rightarrow> Inl (ParsingVersion i s err)
      | Inr v \<Rightarrow>
          (case parseVersionsFrom L (Suc i) ss of
             Inl e \<Rightarrow> Inl e
           | Inr vs \<Rightarrow> Inr (v # vs)))"

text \<open>
  \<open>sort.Sort (semver.Collection vss)\<close> orders the slice by \<open>LessThan\<close>. Go's sort is
  not stable: where two versions compare equal their order is free. The model is the
  insertion sort that keeps equal versions in their order; what is stated of the code
  rests only on the result being ascending and holding the same versions, each as often
  as before.
\<close>

fun insertVersion :: "('v \<Rightarrow> 'v \<Rightarrow> bool) \<Rightarrow> 'v \<Rightarrow> 'v list \<Rightarrow> 'v list" where
  "insertVersion lt x [] = [x]"
| "insertVersion lt x (y # ys) =
     (if lt y x then y # insertVersion lt x ys else x # y # ys)"

fun sortVersions :: "('v \<Rightarrow> 'v \<Rightarrow> bool) \<Rightarrow> 'v list \<Rightarrow> 'v list" where
  "sortVersions lt [] = []"
| "sortVersions lt (x # xs) = insertVersion lt x (sortVersions lt xs)"

definition versionStringsToSemvers ::
  "('v, 'c, 'z) packages_scheme \<Rightarrow> string list \<Rightarrow> error + 'v list" where
  "versionStringsToSemvers L vs =
     (case parseVersionsFrom L 0 vs of
        Inl e \<Rightarrow> Inl e
      | Inr vss \<Rightarrow> Inr (sortVersions (LessThan L) vss))"

definition semverToRelease :: "('v, 'c, 'z) packages_scheme \<Rightarrow> 'v \<Rightarrow> 'v Release" where
  "semverToRelease L ver =
     \<lparr>Semver = ver, Version = VersionString L ver, Description = []\<rparr>"

definition versionsToReleases ::
  "('v, 'c, 'z) packages_scheme \<Rightarrow> string list \<Rightarrow> error + 'v Release list" where
  "versionsToReleases L vs =
     (case versionStringsToSemvers L vs of
        Inl e \<Rightarrow> Inl e
      | Inr vss \<Rightarrow> Inr (map (semverToRelease L) vss))"

definition execAll ::
  "('v, 'c, 'z) packages_scheme \<Rightarrow> Tracker \<Rightarrow> string \<Rightarrow> error + 'v Release list" where
  "execAll L p cmd =
     (case snd (exec p cmd) of
        Inl e \<Rightarrow> Inl e
      | Inr vs \<Rightarrow> versionsToReleases L vs)"

subsection \<open>The document providers\<close>

text \<open>
  The keys of a \<open>map[interface{}]interface{}\<close>, each asserted to be a string: the
  first key that is none panics.
\<close>

fun assertStrings :: "node list \<Rightarrow> error + string list" where
  "assertStrings [] = Inr []"
| "assertStrings (NStr k # ks) =
     (case assertStrings ks of Inl e \<Rightarrow> Inl e | Inr vs \<Rightarrow> Inr (k # vs))"
| "assertStrings (k # ks) = Inl (TypeAssertionPanic k)"

text \<open>
  The second loop of \<open>extractVersionStrings\<close>, over the nodes of the query result, with
  the strings gathered so far.
\<close>

fun nodeStrings :: "string list \<Rightarrow> node list \<Rightarrow> error + string list" where
  "nodeStrings vs [] = Inr vs"
| "nodeStrings vs (NMapI typed # rs) =
     (case assertStrings (map fst typed) of
        Inl e \<Rightarrow> Inl e
      | Inr ks \<Rightarrow> nodeStrings (vs @ ks) rs)"
| "nodeStrings vs (NMapS typed # rs) = nodeStrings (vs @ map fst typed) rs"
| "nodeStrings vs (NStr typed # rs) = nodeStrings (vs @ [typed]) rs"
| "nodeStrings vs (typed # rs) = Inl (UnexpectedNodeType typed)"

text \<open>
  What \<open>extractVersionStrings\<close> does with the result \<open>got\<close> of the path query on the
  normalised document \<open>v\<close>.
\<close>

definition resultStrings :: "string \<Rightarrow> node \<Rightarrow> node \<Rightarrow> error + string list" where
  "resultStrings jpath v got =
     (case (case got of
              NArr typed \<Rightarrow> Inr typed
            | NMapS typed \<Rightarrow> Inr [NMapS typed]
            | _ \<Rightarrow> Inl (UnexpectedResultType jpath got)) of
        Inl e \<Rightarrow> Inl e
      | Inr raw \<Rightarrow>
          if length raw = 0 then Inl (ReturnedNothing jpath v)
          else nodeStrings [] raw)"

text \<open>A node of a query result that is neither a string nor a map.\<close>

definition otherType :: "node \<Rightarrow> bool" where
  "otherType n =
     (case n of NStr s \<Rightarrow> False | NMapS m \<Rightarrow> False | NMapI m \<Rightarrow> False | _ \<Rightarrow> True)"

definition extractVersionStrings ::
  "('v, 'c, 'z) packages_scheme \<Rightarrow> node \<Rightarrow> string \<Rightarrow> error + string list" where
  "extractVersionStrings L tmp jpath =
     (case RecursivelyCastKeysToStrings L tmp of
        Inl e \<Rightarrow> Inl e
      | Inr v \<Rightarrow>
          (case jsonpath_Get L jpath v of
             Inl e \<Rightarrow> Inl e
           | Inr got \<Rightarrow> resultStrings jpath v got))"

definition extractVersions ::
  "('v, 'c, 'z) packages_scheme \<Rightarrow> node \<Rightarrow> string \<Rightarrow> error + 'v Release list" where
  "extractVersions L tmp jpath =
     (case extractVersionStrings L tmp jpath of
        Inl e \<Rightarrow> Inl e
      | Inr vs \<Rightarrow> versionsToReleases L vs)"

definition getterJsonPath ::
  "('v, 'c, 'z) packages_scheme \<Rightarrow> Tracker \<Rightarrow> GetterJSONPath \<Rightarrow> error + 'v Release list" where
  "getterJsonPath L p spec =
     (case dep p (JSONPath_Source spec) of
        Inl e \<Rightarrow> Inl e
      | Inr localCopy \<Rightarrow>
          (case fs p localCopy of
             Inl e \<Rightarrow> Inl e
           | Inr bs \<Rightarrow>
               (case Unmarshal L bs of
                  Inl e \<Rightarrow> Inl e
                | Inr tmp \<Rightarrow> extractVersions L tmp (JSONPath_Versions spec))))"

definition httpJsonPath ::
  "('v, 'c, 'z) packages_scheme \<Rightarrow> Tracker \<Rightarrow> string \<Rightarrow> string \<Rightarrow> error + 'v Release list" where
  "httpJsonPath L p url jpath =
     (case httpGetter p url of
        Inl e \<Rightarrow> Inl e
      | Inr res \<Rightarrow>
          (case Unmarshal L res of
             Inl e \<Rightarrow> Inl e
           | Inr tmp \<Rightarrow> extractVersions L tmp jpath))"

subsection \<open>All releases, and the latest\<close>

fun All ::
  "('v, 'c, 'z) packages_scheme \<Rightarrow> Tracker \<Rightarrow> ReleaseProvider \<Rightarrow> error + 'v Release list" where
  "All L p (execProvider cmd) = execAll L p cmd"
| "All L p (getterJsonPathProvider spec) = getterJsonPath L p spec"
| "All L p (httpJsonPathProvider url jpath) = httpJsonPath L p url jpath"

definition GetReleases ::
  "('v, 'c, 'z) packages_scheme \<Rightarrow> Tracker \<Rightarrow> error + 'v Release list" where
  "GetReleases L p =
     (case GetProvider p of
        Inl e \<Rightarrow> Inl e
      | Inr pp \<Rightarrow> All L p pp)"

text \<open>
  One turn of the loop of \<open>Latest\<close>, on the pair of \<open>latestVer\<close> and \<open>latest\<close>
  (\<open>None\<close> is the nil pointer).
\<close>

definition latestStep ::
  "('v, 'c, 'z) packages_scheme \<Rightarrow> 'c \<Rightarrow> 'v \<times> 'v Release option \<Rightarrow> 'v Release
     \<Rightarrow> 'v \<times> 'v Release option" where
  "latestStep L cons st r =
     (if \<not> Check L cons (Semver r) then st
      else if LessThan L (fst st) (Semver r) then (Semver r, Some r)
      else st)"

text \<open>\<open>Latest\<close> from the compiled constraint and the releases on: the loop and the answer.\<close>

definition selectLatest ::
  "('v, 'c, 'z) packages_scheme \<Rightarrow> string \<Rightarrow> 'c \<Rightarrow> 'v Release list \<Rightarrow> error + 'v Release" where
  "selectLatest L constraint cons all =
     (case snd (foldl (latestStep L cons) (ZeroVersion L, None) all) of
        None \<Rightarrow>
          Inl (NoSemverMatching constraint (map (\<lambda>r. VersionString L (Semver r)) all))
      | Some latest \<Rightarrow> Inr latest)"

definition Latest ::
  "('v, 'c, 'z) packages_scheme \<Rightarrow> Tracker \<Rightarrow> string \<Rightarrow> error + 'v Release" where
  "Latest L p constraint0 =
     (let constraint = (if constraint0 = [] then ''> 0.0.0'' else constraint0) in
      case NewConstraint L constraint of
        Inl e \<Rightarrow> Inl e
      | Inr cons \<Rightarrow>
          (case GetReleases L p of
             Inl e \<Rightarrow> Inl e
           | Inr all \<Rightarrow> selectLatest L constraint cons all))"

subsection \<open>Error messages\<close>

text \<open>The verb \<open>%d\<close> on an index, and \<open>%v\<close> on a slice of strings.\<close>

fun decimal :: "nat \<Rightarrow> string" where
  "decimal n =
     (if n < 10 then [char_of (48 + n)]
      else decimal (n div 10) @ [char_of (48 + n mod 10)])"

declare decimal.simps [simp del]

fun joinWith :: "string \<Rightarrow> string list \<Rightarrow> string" where
  "joinWith sep [] = []"
| "joinWith sep [x] = x"
| "joinWith sep (x # y # ys) = x @ sep @ joinWith sep (y # ys)"

definition formatStrings :: "string list \<Rightarrow> string" where
  "formatStrings vers = ''['' @ joinWith '' '' vers @ '']''"

fun Error :: "('v, 'c, 'z) packages_scheme \<Rightarrow> error \<Rightarrow> string" where
  "Error L (External msg) = msg"
| "Error L (ParsingVersion i s err) =
     ''parsing version: index '' @ decimal i @ '': '' @ Quote L s @ '': '' @ Error L err"
| "Error L (NoSemverMatching constraint vers) =
     ''no semver matching '' @ Quote L constraint @ '' found in '' @ formatStrings vers"
| "Error L (UnexpectedResultType jpath typed) =
     ''unexpected type of result from jsonpath: '' @ [CHR 0x22] @ jpath @ [CHR 0x22]
       @ '': '' @ FormatValue L typed"
| "Error L (ReturnedNothing jpath v) =
     ''jsonpath: '' @ [CHR 0x22] @ jpath @ [CHR 0x22] @ '': returned nothing: ''
       @ FormatValue L v"
| "Error L (UnexpectedNodeType typed) =
     ''jsonpath: unexpected type of result: '' @ TypeName L typed @ ''='' @ FormatValue L typed"
| "Error L NoVersionsProvider = ''no versions provider specified''"
| "Error L (TypeAssertionPanic k) =
     ''interface conversion: interface {} is '' @ TypeName L k @ '', not string''"

subsection \<open>The semantic-version package, after the specification\<close>

text \<open>
  Modelled from the spec: package \<open>semver\<close> is imported by the tracker and is not among
  its sources. The version parser and the ordering follow the specification's section
  VersionParser: a version is \<open>major.minor.patch\<close> with an optional pre-release after
  \<open>-\<close> and optional build metadata after \<open>+\<close>, a leading \<open>v\<close> is tolerated, and the
  rendering of a parsed version is the version without that \<open>v\<close>.
\<close>

record version =
  major :: nat
  minor :: nat
  patch :: nat
  pre :: string
  metadata :: string
  original :: string

definition isNumeric :: "string \<Rightarrow> bool" where
  "isNumeric s = (s \<noteq> [] \<and> list_all (\<lambda>c. c \<in> set ''0123456789'') s)"

definition isIdentifier :: "string \<Rightarrow> bool" where
  "isIdentifier s =
     (s \<noteq> [] \<and>
      list_all (\<lambda>c. c \<in> set
        ''0123456789abcdefghijklmnopqrstuvwxyzABCDEFGHIJKLMNOPQRSTUVWXYZ-'') s)"

definition toNat :: "string \<Rightarrow> nat" where
  "toNat s = foldl (\<lambda>n c. 10 * n + (of_char c - 48)) 0 s"

definition cutAt :: "char \<Rightarrow> string \<Rightarrow> string \<times> string option" where
  "cutAt c s =
     (takeWhile (\<lambda>x. x \<noteq> c) s,
      case dropWhile (\<lambda>x. x \<noteq> c) s of [] \<Rightarrow> None | _ # r \<Rightarrow> Some r)"

definition validSuffix :: "string option \<Rightarrow> bool" where
  "validSuffix p =
     (case p of None \<Rightarrow> True | Some ids \<Rightarrow> list_all isIdentifier (Split (CHR ''.'') ids))"

definition specNewVersion :: "string \<Rightarrow> error + version" where
  "specNewVersion s =
     (let body = (case s of c # r \<Rightarrow> if c = CHR ''v'' then r else s | [] \<Rightarrow> s);
          (rest, meta) = cutAt (CHR ''+'') body;
          (core, prerelease) = cutAt (CHR ''-'') rest
      in case Split (CHR ''.'') core of
           [a, b, c] \<Rightarrow>
             if isNumeric a \<and> isNumeric b \<and> isNumeric c
                \<and> validSuffix prerelease \<and> validSuffix meta
             then Inr \<lparr>major = toNat a, minor = toNat b, patch = toNat c,
                       pre = (case prerelease of None \<Rightarrow> [] | Some x \<Rightarrow> x),
                       metadata = (case meta of None \<Rightarrow> [] | Some x \<Rightarrow> x),
                       original = s\<rparr>
             else Inl (External ''Invalid Semantic Version'')
         | _ \<Rightarrow> Inl (External ''Invalid Semantic Version''))"

definition specVersionString :: "version \<Rightarrow> string" where
  "specVersionString v =
     decimal (major v) @ ''.'' @ decimal (minor v) @ ''.'' @ decimal (patch v)
       @ (if pre v \<noteq> [] then ''-'' @ pre v else [])
       @ (if metadata v \<noteq> [] then ''+'' @ metadata v else [])"

text \<open>
  Modelled from the spec: the precedence of versions. A numeric pre-release field is
  below an alphanumeric one, numeric fields compare as numbers, alphanumeric fields as
  strings; a version with a pre-release is below the same version without; build metadata
  does not count. The key of a version puts this order into the lexicographic order of
  tuples and lists.
\<close>

definition identifierKey :: "string \<Rightarrow> bool \<times> nat \<times> string" where
  "identifierKey x = (if isNumeric x then (False, toNat x, []) else (True, 0, x))"

definition versionKey :: "version \<Rightarrow> nat \<times> nat \<times> nat \<times> bool \<times> (bool \<times> nat \<times> string) list" where
  "versionKey v =
     (major v, minor v, patch v,
      if pre v = [] then (True, [])
      else (False, map identifierKey (Split (CHR ''.'') (pre v))))"

definition specLessThan :: "version \<Rightarrow> version \<Rightarrow> bool" where
  "specLessThan a b = (versionKey a < versionKey b)"

definition specZeroVersion :: version where
  "specZeroVersion =
     \<lparr>major = 0, minor = 0, patch = 0, pre = [], metadata = [], original = []\<rparr>"

text \<open>
  Modelled from the spec: constraints, in the part of the range language that is one
  comparison with a version (\<open>> 1.0.0\<close>; no operator means equality). A version with a
  pre-release does not satisfy a constraint whose version has none.
\<close>

datatype comparator = CEq | CNe | CGt | CLt | CGe | CLe

fun constraintOf :: "comparator \<Rightarrow> string \<Rightarrow> error + comparator \<times> version" where
  "constraintOf cmp s =
     (case specNewVersion (dropWhile (\<lambda>c. c = CHR '' '') s) of
        Inl e \<Rightarrow> Inl (External ''improper constraint'')
      | Inr v \<Rightarrow> Inr (cmp, v))"

fun specNewConstraint :: "string \<Rightarrow> error + comparator \<times> version" where
  "specNewConstraint (a # b # s) =
     (if a = CHR ''>'' \<and> b = CHR ''='' then constraintOf CGe s
      else if a = CHR ''<'' \<and> b = CHR ''='' then constraintOf CLe s
      else if a = CHR ''!'' \<and> b = CHR ''='' then constraintOf CNe s
      else if a = CHR ''>'' then constraintOf CGt (b # s)
      else if a = CHR ''<'' then constraintOf CLt (b # s)
      else if a = CHR ''='' then constraintOf CEq (b # s)
      else constraintOf CEq (a # b # s))"
| "specNewConstraint s = constraintOf CEq s"

fun specCheck :: "comparator \<times> version \<Rightarrow> version \<Rightarrow> bool" where
  "specCheck (cmp, con) v =
     (if pre v \<noteq> [] \<and> pre con = [] then False
      else case cmp of
        CEq \<Rightarrow> versionKey v = versionKey con
      | CNe \<Rightarrow> versionKey v \<noteq> versionKey con
      | CGt \<Rightarrow> versionKey con < versionKey v
      | CLt \<Rightarrow> versionKey v < versionKey con
      | CGe \<Rightarrow> versionKey con \<le> versionKey v
      | CLe \<Rightarrow> versionKey v \<le> versionKey con)"

subsection \<open>An example world\<close>

text \<open>
  Three documents and what the document packages do on them: the body of a registry's
  tag list with the decoded document and the result of the registry provider's path on
  it, the same for a registry image without tags, and a list of versions in a file,
  queried with the path \<open>$\<close> for the whole document. The decoder and the path query are
  given on these documents only, the verb \<open>%q\<close> for texts that need no escaping, the
  verbs \<open>%v\<close> and \<open>%T\<close> for strings.
\<close>

definition registryBody :: string where
  \<open>registryBody = ''{"results":[{"name":"v1.0.0"},{"name":"v1.1.0"}]}''\<close>

definition registryDocument :: node where
  "registryDocument =
     NMapS [(''results'', NArr [NMapS [(''name'', NStr ''v1.0.0'')],
                                NMapS [(''name'', NStr ''v1.1.0'')]])]"

definition emptyRegistryBody :: string where
  \<open>emptyRegistryBody = ''{"results":[]}''\<close>

definition emptyRegistryDocument :: node where
  "emptyRegistryDocument = NMapS [(''results'', NArr [])]"

definition fileBody :: string where
  "fileBody = ''- 1.2.3'' @ [CHR 0x0A] @ ''- 0.9.0'' @ [CHR 0x0A]"

definition fileDocument :: node where
  "fileDocument = NArr [NStr ''1.2.3'', NStr ''0.9.0'']"

definition exampleUnmarshal :: "string \<Rightarrow> error + node" where
  "exampleUnmarshal bs =
     (if bs = registryBody then Inr registryDocument
      else if bs = emptyRegistryBody then Inr emptyRegistryDocument
      else if bs = fileBody then Inr fileDocument
      else Inl (External ''yaml: document not known''))"

definition exampleGet :: "string \<Rightarrow> node \<Rightarrow> error + node" where
  "exampleGet jpath v =
     (if jpath = ''$'' then Inr v
      else if jpath = ''$.results[*].name'' \<and> v = registryDocument
        then Inr (NArr [NStr ''v1.0.0'', NStr ''v1.1.0''])
      else if jpath = ''$.results[*].name'' \<and> v = emptyRegistryDocument
        then Inr (NArr [])
      else Inl (External ''jsonpath: path not known''))"

definition examplePackages :: "(version, comparator \<times> version) packages" where
  "examplePackages =
     \<lparr>NewVersion = specNewVersion,
      VersionString = specVersionString,
      LessThan = specLessThan,
      ZeroVersion = specZeroVersion,
      NewConstraint = specNewConstraint,
      Check = specCheck,
      Unmarshal = exampleUnmarshal,
      RecursivelyCastKeysToStrings = Inr,
      jsonpath_Get = exampleGet,
      Quote = (\<lambda>s. [CHR 0x22] @ s @ [CHR 0x22]),
      FormatValue = (\<lambda>n. case n of NStr s \<Rightarrow> s | _ \<Rightarrow> ''?''),
      TypeName = (\<lambda>n. case n of NStr s \<Rightarrow> ''string'' | _ \<Rightarrow> ''?'')\<rparr>"

text \<open>
  Trackers in this world, from the sources and from what the run of a command gives
  (standard output, standard error, error). \<open>fileTracker\<close> names a file of versions
  and a description, \<open>registryTracker\<close> a registry image, \<open>emptyRegistryTracker\<close>
  a registry image without tags, \<open>gitTracker\<close> a git repository whose tag listing is
  the given run.
\<close>

definition noVersionsFrom :: VersionsFrom where
  "noVersionsFrom =
     \<lparr>JSONPath = \<lparr>JSONPath_Source = [], JSONPath_Versions = [], JSONPath_Description = []\<rparr>,
      GitTags = \<lparr>GitTags_Source = []\<rparr>,
      GitHubReleases = \<lparr>GitHubReleases_Host = [], GitHubReleases_Source = []\<rparr>,
      DockerImageTags = \<lparr>DockerImageTags_Source = []\<rparr>\<rparr>"

definition trackerOf ::
  "VersionsFrom \<Rightarrow> string \<times> string \<times> error option \<Rightarrow> Tracker" where
  "trackerOf vf run =
     \<lparr>Spec = \<lparr>VersionsFrom = vf\<rparr>,
      cmdSite = (\<lambda>prog args. run),
      dep = (\<lambda>source. if source = ''versions.yaml'' then Inr ''/cache/versions.yaml''
                       else if source = ''tags.json'' then Inr ''/cache/tags.json''
                       else Inl (External ''resolve: source not known'')),
      fs = (\<lambda>path. if path = ''/cache/versions.yaml'' then Inr fileBody
                    else if path = ''/cache/tags.json'' then Inr emptyRegistryBody
                    else Inl (External ''open: no such file'')),
      httpGetter = (\<lambda>url.
        if url = ''https://registry.hub.docker.com/v2/repositories/library/demo/tags/''
        then Inr registryBody
        else if url = ''https://registry.hub.docker.com/v2/repositories/library/empty/tags/''
        then Inr emptyRegistryBody
        else Inl (External ''get: not found''))\<rparr>"

definition fileTracker :: Tracker where
  "fileTracker =
     trackerOf (noVersionsFrom\<lparr>JSONPath :=
       \<lparr>JSONPath_Source = ''versions.yaml'', JSONPath_Versions = ''$'',
        JSONPath_Description = ''demo releases''\<rparr>\<rparr>) ([], [], None)"

definition registryTracker :: Tracker where
  "registryTracker =
     trackerOf (noVersionsFrom\<lparr>DockerImageTags :=
       \<lparr>DockerImageTags_Source = ''library/demo''\<rparr>\<rparr>) ([], [], None)"

definition emptyRegistryTracker :: Tracker where
  "emptyRegistryTracker =
     trackerOf (noVersionsFrom\<lparr>DockerImageTags :=
       \<lparr>DockerImageTags_Source = ''library/empty''\<rparr>\<rparr>) ([], [], None)"

definition gitTracker :: "string \<times> string \<times> error option \<Rightarrow> Tracker" where
  "gitTracker run =
     trackerOf (noVersionsFrom\<lparr>GitTags := \<lparr>GitTags_Source = ''github.com/demo/demo''\<rparr>\<rparr>)
       run"

definition sourcesTracker :: "string \<Rightarrow> string \<Rightarrow> string \<Rightarrow> string \<Rightarrow> Tracker" where
  "sourcesTracker jsonPath dockerImageTags gitTags githubReleases =
     trackerOf
       \<lparr>JSONPath = \<lparr>JSONPath_Source = jsonPath, JSONPath_Versions = ''$'',
                    JSONPath_Description = []\<rparr>,
        GitTags = \<lparr>GitTags_Source = gitTags\<rparr>,
        GitHubReleases = \<lparr>GitHubReleases_Host = [], GitHubReleases_Source = githubReleases\<rparr>,
        DockerImageTags = \<lparr>DockerImageTags_Source = dockerImageTags\<rparr>\<rparr> ([], [], None)"

definition linesOf :: "string list \<Rightarrow> string" where
  "linesOf ls = concat (map (\<lambda>l. l @ [CHR 0x0A]) ls)"

section \<open>Properties\<close>

subsection \<open>Sorting and parsing\<close>

lemma set_insertVersion: "set (insertVersion lt x ys) = insert x (set ys)"
  by (induction ys) auto


lemma set_sortVersions: "set (sortVersions lt xs) = set xs"
  by (induction xs) (auto simp: set_insertVersion)




lemma sorted_insertVersion:
  assumes asym: "\<And>a b. lt a b \<Longrightarrow> \<not> lt b a"
    and negtrans: "\<And>a b c. lt a c \<Longrightarrow> lt a b \<or> lt b c"
    and sorted: "sorted_wrt (\<lambda>a b. \<not> lt b a) ys"
  shows "sorted_wrt (\<lambda>a b. \<not> lt b a) (insertVersion lt x ys)"
  using sorted
proof (induction ys)
  case Nil
  then show ?case by simp
next
  case (Cons y ys)
  show ?case
  proof (cases "lt y x")
    case True
    have tail: "sorted_wrt (\<lambda>a b. \<not> lt b a) (insertVersion lt x ys)"
      using Cons by simp
    have "\<not> lt z y" if "z \<in> set (insertVersion lt x ys)" for z
      using that True asym Cons.prems by (auto simp: set_insertVersion)
    with True tail show ?thesis by simp
  next
    case False
    have "\<not> lt z x" if "z \<in> set ys" for z
    proof
      assume "lt z x"
      then have "lt z y \<or> lt y x" by (rule negtrans)
      with False that Cons.prems show False by auto
    qed
    with False Cons.prems show ?thesis by simp
  qed
qed

lemma sorted_sortVersions:
  assumes "\<And>a b. lt a b \<Longrightarrow> \<not> lt b a"
    and "\<And>a b c. lt a c \<Longrightarrow> lt a b \<or> lt b c"
  shows "sorted_wrt (\<lambda>a b. \<not> lt b a) (sortVersions lt xs)"
proof (induction xs)
  case Nil
  show ?case by simp
next
  case (Cons x xs)
  from sorted_insertVersion [of lt "sortVersions lt xs" x, OF assms Cons]
  show ?case by simp
qed

lemma parseVersionsFrom_Inr:
  "parseVersionsFrom L i vs = Inr vss \<longleftrightarrow> map (NewVersion L) vs = map Inr vss"
proof (induction vs arbitrary: i vss)
  case Nil
  show ?case by auto
next
  case (Cons s ss)
  show ?case
  proof (cases "NewVersion L s")
    case (Inl e)
    then show ?thesis by (auto simp: map_eq_Cons_conv)
  next
    case (Inr v)
    show ?thesis
    proof (cases "parseVersionsFrom L (Suc i) ss")
      case (Inl e)
      with Inr Cons [of "Suc i"] show ?thesis
        by (auto simp: map_eq_Cons_conv)
    next
      case right: (Inr ws)
      with Inr Cons [of "Suc i" ws] Cons [of "Suc i"] show ?thesis
        by (auto simp: map_eq_Cons_conv)
    qed
  qed
qed

lemma parseVersionsFrom_first_failure:
  assumes "j < length vs" and "isl (NewVersion L (vs ! j))"
  shows "\<exists>k err. k \<le> j \<and> NewVersion L (vs ! k) = Inl err
           \<and> (\<forall>m<k. \<not> isl (NewVersion L (vs ! m)))
           \<and> parseVersionsFrom L i vs = Inl (ParsingVersion (i + k) (vs ! k) err)"
  using assms
proof (induction vs arbitrary: i j)
  case Nil
  then show ?case by simp
next
  case (Cons s ss)
  show ?case
  proof (cases "NewVersion L s")
    case (Inl e)
    then have "NewVersion L ((s # ss) ! 0) = Inl e
        \<and> (\<forall>m<0::nat. \<not> isl (NewVersion L ((s # ss) ! m)))
        \<and> parseVersionsFrom L i (s # ss) = Inl (ParsingVersion (i + 0) ((s # ss) ! 0) e)"
      by simp
    then show ?thesis by blast
  next
    case (Inr v)
    with Cons.prems obtain j' where j': "j = Suc j'"
      by (cases j) auto
    with Cons.prems have "j' < length ss" and "isl (NewVersion L (ss ! j'))"
      by auto
    from Cons.IH [OF this, of "Suc i"] obtain k err where
      k: "k \<le> j'" "NewVersion L (ss ! k) = Inl err"
         "\<forall>m<k. \<not> isl (NewVersion L (ss ! m))"
         "parseVersionsFrom L (Suc i) ss = Inl (ParsingVersion (Suc i + k) (ss ! k) err)"
      by blast
    have "\<forall>m<Suc k. \<not> isl (NewVersion L ((s # ss) ! m))"
    proof (intro allI impI)
      fix m assume "m < Suc k"
      then show "\<not> isl (NewVersion L ((s # ss) ! m))"
        using k(3) Inr by (cases m) auto
    qed
    with k j' Inr have "Suc k \<le> j \<and> NewVersion L ((s # ss) ! Suc k) = Inl err
        \<and> (\<forall>m<Suc k. \<not> isl (NewVersion L ((s # ss) ! m)))
        \<and> parseVersionsFrom L i (s # ss)
            = Inl (ParsingVersion (i + Suc k) ((s # ss) ! Suc k) err)"
      by simp
    then show ?thesis by blast
  qed
qed

lemma versionsToReleases_Inr:
  assumes "versionsToReleases L vs = Inr rs"
  shows "\<exists>vss. map (NewVersion L) vs = map Inr vss
           \<and> rs = map (semverToRelease L) (sortVersions (LessThan L) vss)"
  using assms
  by (auto simp: versionsToReleases_def versionStringsToSemvers_def parseVersionsFrom_Inr
      split: sum.splits)

lemma All_Inr:
  assumes "All L p pp = Inr rs"
  shows "\<exists>vs. versionsToReleases L vs = Inr rs"
  using assms
  by (cases pp)
    (auto simp: execAll_def getterJsonPath_def httpJsonPath_def extractVersions_def
      split: sum.splits)

lemma GetReleases_Inr:
  assumes "GetReleases L p = Inr rs"
  shows "\<exists>vs. versionsToReleases L vs = Inr rs"
  using assms All_Inr [of L p _ rs]
  by (auto simp: GetReleases_def split: sum.splits)

lemma sublist_middle: "sublist b (a @ b @ c)"
  by (auto simp: sublist_def)

subsection \<open>The order of versions after the specification\<close>

lemma specLessThan_asym: "specLessThan a b \<Longrightarrow> \<not> specLessThan b a"
  by (simp add: specLessThan_def)

lemma specLessThan_negtrans: "specLessThan a c \<Longrightarrow> specLessThan a b \<or> specLessThan b c"
  by (auto simp: specLessThan_def)

subsection \<open>Provider selection\<close>

text \<open>
  Claim C6. \<open>GetProvider\<close> looks at the sources in the order jsonPath, dockerImageTags,
  gitTags, githubReleases and returns the provider of the first that is not empty,
  whatever the later ones hold; when all four are empty it returns the error
  \<open>no versions provider specified\<close>.
\<close>

theorem GetProvider_precedence:
  "(JSONPath_Source (JSONPath (VersionsFrom (Spec p))) \<noteq> [] \<longrightarrow>
      GetProvider p = Inr (getterJsonPathProvider (JSONPath (VersionsFrom (Spec p)))))
   \<and> (JSONPath_Source (JSONPath (VersionsFrom (Spec p))) = []
      \<and> DockerImageTags_Source (DockerImageTags (VersionsFrom (Spec p))) \<noteq> [] \<longrightarrow>
      GetProvider p = Inr (httpJsonPathProvider
        (''https://registry.hub.docker.com/v2/repositories/''
           @ DockerImageTags_Source (DockerImageTags (VersionsFrom (Spec p))) @ ''/tags/'')
        ''$.results[*].name''))
   \<and> (JSONPath_Source (JSONPath (VersionsFrom (Spec p))) = []
      \<and> DockerImageTags_Source (DockerImageTags (VersionsFrom (Spec p))) = []
      \<and> GitTags_Source (GitTags (VersionsFrom (Spec p))) \<noteq> [] \<longrightarrow>
      GetProvider p = Inr (execProvider
        (gitTagsCommand (GitTags_Source (GitTags (VersionsFrom (Spec p)))))))
   \<and> (JSONPath_Source (JSONPath (VersionsFrom (Spec p))) = []
      \<and> DockerImageTags_Source (DockerImageTags (VersionsFrom (Spec p))) = []
      \<and> GitTags_Source (GitTags (VersionsFrom (Spec p))) = []
      \<and> GitHubReleases_Source (GitHubReleases (VersionsFrom (Spec p))) \<noteq> [] \<longrightarrow>
      GetProvider p = Inr (httpJsonPathProvider
        (''https://''
           @ (if GitHubReleases_Host (GitHubReleases (VersionsFrom (Spec p))) = []
              then ''api.github.com''
              else GitHubReleases_Host (GitHubReleases (VersionsFrom (Spec p))))
           @ ''/repos/'' @ GitHubReleases_Source (GitHubReleases (VersionsFrom (Spec p)))
           @ ''/releases'')
        ''$[*].tag_name''))
   \<and> (JSONPath_Source (JSONPath (VersionsFrom (Spec p))) = []
      \<and> DockerImageTags_Source (DockerImageTags (VersionsFrom (Spec p))) = []
      \<and> GitTags_Source (GitTags (VersionsFrom (Spec p))) = []
      \<and> GitHubReleases_Source (GitHubReleases (VersionsFrom (Spec p))) = [] \<longrightarrow>
      GetProvider p = Inl NoVersionsProvider
      \<and> Error L NoVersionsProvider = ''no versions provider specified'')"
  by (simp add: GetProvider_def Let_def newGetterProvider_def newDockerHubImageTagsProvider_def
      newExecProvider_def newGitHubReleasesProvider_def)

theorem GetProvider_precedence_witness:
  "GetProvider (sourcesTracker ''a.yaml'' ''library/b'' ''github.com/c/c'' ''d/d'')
     = Inr (getterJsonPathProvider
         \<lparr>JSONPath_Source = ''a.yaml'', JSONPath_Versions = ''$'', JSONPath_Description = []\<rparr>)
   \<and> GetProvider (sourcesTracker [] ''library/b'' ''github.com/c/c'' ''d/d'')
     = Inr (httpJsonPathProvider
         ''https://registry.hub.docker.com/v2/repositories/library/b/tags/''
         ''$.results[*].name'')
   \<and> GetProvider (sourcesTracker [] [] ''github.com/c/c'' ''d/d'')
     = Inr (execProvider (gitTagsCommand ''github.com/c/c''))
   \<and> GetProvider (sourcesTracker [] [] [] ''d/d'')
     = Inr (httpJsonPathProvider ''https://api.github.com/repos/d/d/releases'' ''$[*].tag_name'')
   \<and> GetProvider (sourcesTracker [] [] [] []) = Inl NoVersionsProvider"
  using
    GetProvider_precedence [of "sourcesTracker ''a.yaml'' ''library/b'' ''github.com/c/c'' ''d/d''"]
    GetProvider_precedence [of "sourcesTracker [] ''library/b'' ''github.com/c/c'' ''d/d''"]
    GetProvider_precedence [of "sourcesTracker [] [] ''github.com/c/c'' ''d/d''"]
    GetProvider_precedence [of "sourcesTracker [] [] [] ''d/d''"]
    GetProvider_precedence [of "sourcesTracker [] [] [] []"]
  by (simp add: sourcesTracker_def trackerOf_def)

subsection \<open>Parsing is all or nothing\<close>

text \<open>
  Claim C2. When one of the candidate strings does not parse, \<open>versionStringsToSemvers\<close>
  returns no versions but the error of the first such string, which carries the index of
  the string and the string, both part of the message; \<open>versionsToReleases\<close> and the
  providers built on it return the same error and no releases.
\<close>

theorem versionStringsToSemvers_all_or_nothing:
  assumes "j < length vs" and "isl (NewVersion L (vs ! j))"
  shows "\<exists>i err. i \<le> j \<and> NewVersion L (vs ! i) = Inl err
           \<and> (\<forall>m<i. \<not> isl (NewVersion L (vs ! m)))
           \<and> versionStringsToSemvers L vs = Inl (ParsingVersion i (vs ! i) err)
           \<and> versionsToReleases L vs = Inl (ParsingVersion i (vs ! i) err)
           \<and> (snd (exec p cmd) = Inr vs \<longrightarrow>
                execAll L p cmd = Inl (ParsingVersion i (vs ! i) err))
           \<and> (extractVersionStrings L tmp jpath = Inr vs \<longrightarrow>
                extractVersions L tmp jpath = Inl (ParsingVersion i (vs ! i) err))
           \<and> sublist (decimal i) (Error L (ParsingVersion i (vs ! i) err))
           \<and> sublist (Quote L (vs ! i)) (Error L (ParsingVersion i (vs ! i) err))"
proof -
  from parseVersionsFrom_first_failure [OF assms, of 0] obtain i err where
    i: "i \<le> j" "NewVersion L (vs ! i) = Inl err"
       "\<forall>m<i. \<not> isl (NewVersion L (vs ! m))"
       "parseVersionsFrom L 0 vs = Inl (ParsingVersion i (vs ! i) err)"
    by auto
  from i(4) have semvers: "versionStringsToSemvers L vs = Inl (ParsingVersion i (vs ! i) err)"
    by (simp add: versionStringsToSemvers_def)
  then have releases: "versionsToReleases L vs = Inl (ParsingVersion i (vs ! i) err)"
    by (simp add: versionsToReleases_def)
  have index: "sublist (decimal i) (Error L (ParsingVersion i (vs ! i) err))"
    using sublist_middle [of "decimal i" "''parsing version: index ''"]
    by simp
  have literal: "sublist (Quote L (vs ! i)) (Error L (ParsingVersion i (vs ! i) err))"
    using sublist_middle [of "Quote L (vs ! i)" "''parsing version: index '' @ decimal i @ '': ''"]
    by simp
  from i(1-3) semvers releases index literal show ?thesis
    by (auto simp: execAll_def extractVersions_def simp del: Error.simps)
qed

theorem versionStringsToSemvers_all_or_nothing_witness:
  "(1::nat) < length [''1.0.0'', ''1.x'', ''2.0.0'']
   \<and> isl (NewVersion examplePackages ([''1.0.0'', ''1.x'', ''2.0.0''] ! 1))
   \<and> versionStringsToSemvers examplePackages [''1.0.0'', ''1.x'', ''2.0.0'']
       = Inl (ParsingVersion 1 ''1.x'' (External ''Invalid Semantic Version''))
   \<and> versionsToReleases examplePackages [''1.0.0'', ''1.x'', ''2.0.0'']
       = Inl (ParsingVersion 1 ''1.x'' (External ''Invalid Semantic Version''))
   \<and> snd (exec (gitTracker (linesOf [''1.0.0'', ''1.x'', ''2.0.0''], [], None)) ''git ls-remote'')
       = Inr [''1.0.0'', ''1.x'', ''2.0.0'']
   \<and> execAll examplePackages (gitTracker (linesOf [''1.0.0'', ''1.x'', ''2.0.0''], [], None))
         ''git ls-remote''
       = Inl (ParsingVersion 1 ''1.x'' (External ''Invalid Semantic Version''))
   \<and> extractVersionStrings examplePackages
         (NArr [NStr ''1.0.0'', NStr ''1.x'', NStr ''2.0.0'']) ''$''
       = Inr [''1.0.0'', ''1.x'', ''2.0.0'']
   \<and> extractVersions examplePackages
         (NArr [NStr ''1.0.0'', NStr ''1.x'', NStr ''2.0.0'']) ''$''
       = Inl (ParsingVersion 1 ''1.x'' (External ''Invalid Semantic Version''))
   \<and> sublist (decimal 1)
       (Error examplePackages
          (ParsingVersion 1 ''1.x'' (External ''Invalid Semantic Version'')))
   \<and> sublist (Quote examplePackages ''1.x'')
       (Error examplePackages
          (ParsingVersion 1 ''1.x'' (External ''Invalid Semantic Version'')))"
proof -
  let ?vs = "[''1.0.0'', ''1.x'', ''2.0.0'']"
  let ?p = "gitTracker (linesOf [''1.0.0'', ''1.x'', ''2.0.0''], [], None)"
  let ?tmp = "NArr [NStr ''1.0.0'', NStr ''1.x'', NStr ''2.0.0'']"
  have len: "(1::nat) < length ?vs"
    by simp
  have bad: "isl (NewVersion examplePackages (?vs ! 1))"
    by code_simp
  have result: "versionsToReleases examplePackages ?vs
      = Inl (ParsingVersion 1 ''1.x'' (External ''Invalid Semantic Version''))"
    by code_simp
  have lines: "snd (exec ?p ''git ls-remote'') = Inr ?vs"
    by code_simp
  have strings: "extractVersionStrings examplePackages ?tmp ''$'' = Inr ?vs"
    by code_simp
  from versionStringsToSemvers_all_or_nothing [OF len bad, where p = ?p
      and cmd = "''git ls-remote''" and tmp = ?tmp and jpath = "''$''"]
  obtain i err where
    first: "versionStringsToSemvers examplePackages ?vs = Inl (ParsingVersion i (?vs ! i) err)"
      "versionsToReleases examplePackages ?vs = Inl (ParsingVersion i (?vs ! i) err)"
      "snd (exec ?p ''git ls-remote'') = Inr ?vs \<longrightarrow>
         execAll examplePackages ?p ''git ls-remote'' = Inl (ParsingVersion i (?vs ! i) err)"
      "extractVersionStrings examplePackages ?tmp ''$'' = Inr ?vs \<longrightarrow>
         extractVersions examplePackages ?tmp ''$'' = Inl (ParsingVersion i (?vs ! i) err)"
      "sublist (decimal i) (Error examplePackages (ParsingVersion i (?vs ! i) err))"
      "sublist (Quote examplePackages (?vs ! i))
         (Error examplePackages (ParsingVersion i (?vs ! i) err))"
    by blast
  from first(2) result have which: "i = 1" "err = External ''Invalid Semantic Version''"
    by simp_all
  from first lines strings show ?thesis
    unfolding which using len bad by (simp del: Error.simps)
qed

subsection \<open>The releases are sorted\<close>

text \<open>
  Claim C10. Every provider builds its releases with \<open>versionsToReleases\<close>, which sorts
  the parsed versions first. So, when \<open>LessThan\<close> is the strict part of a total
  preorder (it is asymmetric, and what is below \<open>c\<close> is below \<open>b\<close> or \<open>b\<close> is below
  \<open>c\<close>), the list a successful \<open>GetReleases\<close> returns, which is the list \<open>Latest\<close>
  walks through, is ascending: no release is followed by one of a smaller version.
\<close>

theorem GetReleases_sorted:
  assumes "\<And>a b. LessThan L a b \<Longrightarrow> \<not> LessThan L b a"
    and "\<And>a b c. LessThan L a c \<Longrightarrow> LessThan L a b \<or> LessThan L b c"
    and "GetReleases L p = Inr rs"
  shows "sorted_wrt (\<lambda>a b. \<not> LessThan L (Semver b) (Semver a)) rs"
proof -
  from GetReleases_Inr [OF assms(3)] obtain vs where "versionsToReleases L vs = Inr rs"
    by blast
  from versionsToReleases_Inr [OF this] obtain vss where
    rs: "rs = map (semverToRelease L) (sortVersions (LessThan L) vss)"
    by blast
  have "sorted_wrt (\<lambda>a b. \<not> LessThan L b a) (sortVersions (LessThan L) vss)"
    using assms(1,2) by (rule sorted_sortVersions)
  then show ?thesis
    by (simp add: rs sorted_wrt_map semverToRelease_def)
qed

theorem GetReleases_sorted_witness:
  "GetReleases examplePackages fileTracker
     = Inr [\<lparr>Semver = \<lparr>major = 0, minor = 9, patch = 0, pre = [], metadata = [],
                       original = ''0.9.0''\<rparr>,
              Version = ''0.9.0'', Description = []\<rparr>,
            \<lparr>Semver = \<lparr>major = 1, minor = 2, patch = 3, pre = [], metadata = [],
                       original = ''1.2.3''\<rparr>,
              Version = ''1.2.3'', Description = []\<rparr>]
   \<and> sorted_wrt (\<lambda>a b. \<not> LessThan examplePackages (Semver b) (Semver a))
       [\<lparr>Semver = \<lparr>major = 0, minor = 9, patch = 0, pre = [], metadata = [],
                  original = ''0.9.0''\<rparr>,
         Version = ''0.9.0'', Description = []\<rparr>,
        \<lparr>Semver = \<lparr>major = 1, minor = 2, patch = 3, pre = [], metadata = [],
                  original = ''1.2.3''\<rparr>,
         Version = ''1.2.3'', Description = []\<rparr>]"
proof -
  have asym: "\<And>a b. LessThan examplePackages a b \<Longrightarrow> \<not> LessThan examplePackages b a"
    by (simp add: examplePackages_def specLessThan_asym)
  have negtrans: "\<And>a b c. LessThan examplePackages a c
      \<Longrightarrow> LessThan examplePackages a b \<or> LessThan examplePackages b c"
    using specLessThan_negtrans by (simp add: examplePackages_def)
  have releases: "GetReleases examplePackages fileTracker
     = Inr [\<lparr>Semver = \<lparr>major = 0, minor = 9, patch = 0, pre = [], metadata = [],
                       original = ''0.9.0''\<rparr>,
              Version = ''0.9.0'', Description = []\<rparr>,
            \<lparr>Semver = \<lparr>major = 1, minor = 2, patch = 3, pre = [], metadata = [],
                       original = ''1.2.3''\<rparr>,
              Version = ''1.2.3'', Description = []\<rparr>]"
    by code_simp
  from GetReleases_sorted [of examplePackages, OF asym negtrans releases] releases
  show ?thesis by simp
qed

subsection \<open>The query result\<close>

lemma nodeStrings_gathered:
  "nodeStrings acc rs =
     (case nodeStrings [] rs of Inl e \<Rightarrow> Inl e | Inr vs \<Rightarrow> Inr (acc @ vs))"
proof (induction rs arbitrary: acc)
  case Nil
  show ?case by simp
next
  case (Cons r rs)
  show ?case
  proof (cases r)
    case (NStr s)
    with Cons [of "acc @ [s]"] Cons [of "[s]"] show ?thesis
      by (simp split: sum.splits)
  next
    case (NMapS m)
    with Cons [of "acc @ map fst m"] Cons [of "map fst m"] show ?thesis
      by (simp split: sum.splits)
  next
    case (NMapI m)
    show ?thesis
    proof (cases "assertStrings (map fst m)")
      case (Inl e)
      with NMapI show ?thesis by simp
    next
      case (Inr ks)
      with NMapI Cons [of "acc @ ks"] Cons [of ks] show ?thesis
        by (simp split: sum.splits)
    qed
  qed simp_all
qed

lemma nodeStrings_Cons:
  "nodeStrings [] (r # rs) =
     (case nodeStrings [] [r] of
        Inl e \<Rightarrow> Inl e
      | Inr h \<Rightarrow> (case nodeStrings [] rs of Inl e \<Rightarrow> Inl e | Inr t \<Rightarrow> Inr (h @ t)))"
proof (cases r)
  case (NStr s)
  then show ?thesis
    by (simp add: nodeStrings_gathered [of "[s]" rs])
next
  case (NMapS m)
  then show ?thesis
    by (simp add: nodeStrings_gathered [of "map fst m" rs])
next
  case (NMapI m)
  show ?thesis
  proof (cases "assertStrings (map fst m)")
    case (Inl e)
    with NMapI show ?thesis by simp
  next
    case (Inr ks)
    with NMapI show ?thesis
      by (simp add: nodeStrings_gathered [of ks rs])
  qed
qed simp_all

lemma nodeStrings_append:
  assumes "nodeStrings [] xs = Inr a"
  shows "nodeStrings [] (xs @ ys) =
     (case nodeStrings [] ys of Inl e \<Rightarrow> Inl e | Inr b \<Rightarrow> Inr (a @ b))"
  using assms
proof (induction xs arbitrary: a)
  case Nil
  then show ?case by (simp split: sum.splits)
next
  case (Cons r rs)
  from Cons.prems nodeStrings_Cons [of r rs] obtain h t where
    h: "nodeStrings [] [r] = Inr h" and t: "nodeStrings [] rs = Inr t" and a: "a = h @ t"
    by (auto split: sum.splits)
  have "nodeStrings [] ((r # rs) @ ys) =
      (case nodeStrings [] (rs @ ys) of Inl e \<Rightarrow> Inl e | Inr b \<Rightarrow> Inr (h @ b))"
    using nodeStrings_Cons [of r "rs @ ys"] h by simp
  with Cons.IH [OF t] show ?case
    by (simp add: a split: sum.splits)
qed

lemma assertStrings_strings: "assertStrings (map NStr ks) = Inr ks"
  by (induction ks) auto

lemma nodeStrings_strings: "nodeStrings [] (map NStr ss) = Inr ss"
proof (induction ss)
  case Nil
  show ?case by simp
next
  case (Cons s ss)
  then show ?case
    by (simp add: nodeStrings_gathered [of "[s]"])
qed

lemma nodeStrings_other:
  assumes "otherType n"
  shows "nodeStrings acc (n # ys) = Inl (UnexpectedNodeType n)"
  using assms by (cases n) (simp_all add: otherType_def)

lemma nodeStrings_fails:
  assumes "n \<in> set raw" and "otherType n"
  shows "isl (nodeStrings acc raw)"
  using assms
proof (induction raw arbitrary: acc)
  case Nil
  then show ?case by simp
next
  case (Cons r rs)
  show ?case
  proof (cases "r = n")
    case True
    with Cons.prems show ?thesis by (simp add: nodeStrings_other)
  next
    case False
    with Cons.prems Cons.IH have "isl (nodeStrings acc' rs)" for acc'
      by simp
    then show ?thesis
      by (cases r) (auto split: sum.splits)
  qed
qed

text \<open>
  Claim C4. A path query whose result is the empty sequence is an error: the extraction
  returns \<open>returned nothing\<close> with the path and the document, and so do the release
  lists built on it; no list of strings and no list of releases is returned, empty or not.
\<close>

theorem empty_query_result_is_error:
  assumes "RecursivelyCastKeysToStrings L tmp = Inr v"
    and "jsonpath_Get L jpath v = Inr (NArr [])"
  shows "extractVersionStrings L tmp jpath = Inl (ReturnedNothing jpath v)
    \<and> extractVersions L tmp jpath = Inl (ReturnedNothing jpath v)
    \<and> (httpGetter p url = Inr res \<and> Unmarshal L res = Inr tmp \<longrightarrow>
         httpJsonPath L p url jpath = Inl (ReturnedNothing jpath v))
    \<and> (dep p (JSONPath_Source spec) = Inr localCopy \<and> fs p localCopy = Inr res
         \<and> Unmarshal L res = Inr tmp \<and> JSONPath_Versions spec = jpath \<longrightarrow>
         getterJsonPath L p spec = Inl (ReturnedNothing jpath v))"
  using assms
  by (auto simp: extractVersionStrings_def extractVersions_def resultStrings_def
      httpJsonPath_def getterJsonPath_def)

theorem empty_query_result_is_error_witness:
  "RecursivelyCastKeysToStrings examplePackages emptyRegistryDocument = Inr emptyRegistryDocument
   \<and> jsonpath_Get examplePackages ''$.results[*].name'' emptyRegistryDocument = Inr (NArr [])
   \<and> extractVersionStrings examplePackages emptyRegistryDocument ''$.results[*].name''
     = Inl (ReturnedNothing ''$.results[*].name'' emptyRegistryDocument)
   \<and> extractVersions examplePackages emptyRegistryDocument ''$.results[*].name''
     = Inl (ReturnedNothing ''$.results[*].name'' emptyRegistryDocument)
   \<and> httpGetter emptyRegistryTracker
       ''https://registry.hub.docker.com/v2/repositories/library/empty/tags/''
     = Inr emptyRegistryBody
   \<and> Unmarshal examplePackages emptyRegistryBody = Inr emptyRegistryDocument
   \<and> httpJsonPath examplePackages emptyRegistryTracker
       ''https://registry.hub.docker.com/v2/repositories/library/empty/tags/''
       ''$.results[*].name''
     = Inl (ReturnedNothing ''$.results[*].name'' emptyRegistryDocument)
   \<and> dep emptyRegistryTracker ''tags.json'' = Inr ''/cache/tags.json''
   \<and> fs emptyRegistryTracker ''/cache/tags.json'' = Inr emptyRegistryBody
   \<and> getterJsonPath examplePackages emptyRegistryTracker
       \<lparr>JSONPath_Source = ''tags.json'', JSONPath_Versions = ''$.results[*].name'',
        JSONPath_Description = []\<rparr>
     = Inl (ReturnedNothing ''$.results[*].name'' emptyRegistryDocument)
   \<and> GetReleases examplePackages emptyRegistryTracker
     = Inl (ReturnedNothing ''$.results[*].name'' emptyRegistryDocument)"
proof -
  let ?url = "''https://registry.hub.docker.com/v2/repositories/library/empty/tags/''"
  let ?spec = "\<lparr>JSONPath_Source = ''tags.json'', JSONPath_Versions = ''$.results[*].name'',
        JSONPath_Description = []\<rparr>"
  have cast: "RecursivelyCastKeysToStrings examplePackages emptyRegistryDocument
      = Inr emptyRegistryDocument"
    by (simp add: examplePackages_def)
  have got: "jsonpath_Get examplePackages ''$.results[*].name'' emptyRegistryDocument
      = Inr (NArr [])"
    by code_simp
  have body: "httpGetter emptyRegistryTracker ?url = Inr emptyRegistryBody"
    by (simp add: emptyRegistryTracker_def trackerOf_def)
  have decoded: "Unmarshal examplePackages emptyRegistryBody = Inr emptyRegistryDocument"
    by code_simp
  have resolved: "dep emptyRegistryTracker (JSONPath_Source ?spec) = Inr ''/cache/tags.json''"
    by (simp add: emptyRegistryTracker_def trackerOf_def)
  have read: "fs emptyRegistryTracker ''/cache/tags.json'' = Inr emptyRegistryBody"
    by (simp add: emptyRegistryTracker_def trackerOf_def)
  have all: "GetReleases examplePackages emptyRegistryTracker
      = Inl (ReturnedNothing ''$.results[*].name'' emptyRegistryDocument)"
    by code_simp
  from empty_query_result_is_error [OF cast got, where p = emptyRegistryTracker
      and url = ?url and res = emptyRegistryBody and spec = ?spec
      and localCopy = "''/cache/tags.json''"]
    cast got body decoded resolved read all
  show ?thesis
    by simp
qed

text \<open>
  Claim C5. The loop over the nodes of a query result takes a string as it is and keeps
  the order of the nodes; of a map it takes every key, each once, so that what it emits
  for a map is, as a set, the key set of the map, in whatever order the map is walked;
  and a node that is neither a string nor a map ends the extraction with an error, the
  error for that node when the nodes before it are strings and maps with string keys.
  The result of a query is such a sequence of nodes, or one map, taken as the sequence
  of that map alone.
\<close>

theorem nodeStrings_extraction:
  "nodeStrings [] (map NStr ss) = Inr ss
   \<and> (nodeStrings [] [NMapS m] = Inr (map fst m)
      \<and> set (map fst m) = fst ` set m \<and> length (map fst m) = length m)
   \<and> nodeStrings [] [NMapI (map (\<lambda>(k, x). (NStr k, x)) m)] = Inr (map fst m)
   \<and> (set m' = set m \<longrightarrow>
        (\<exists>ks ks'. nodeStrings [] [NMapS m] = Inr ks \<and> nodeStrings [] [NMapS m'] = Inr ks'
           \<and> set ks = set ks'))
   \<and> (nodeStrings [] xs = Inr a \<and> nodeStrings [] ys = Inr b \<longrightarrow>
        nodeStrings [] (xs @ ys) = Inr (a @ b))
   \<and> (nodeStrings [] xs = Inr a \<and> otherType n \<longrightarrow>
        nodeStrings [] (xs @ n # zs) = Inl (UnexpectedNodeType n))
   \<and> (n \<in> set raw \<and> otherType n \<longrightarrow> isl (nodeStrings [] raw))
   \<and> (typed \<noteq> [] \<longrightarrow> resultStrings jpath v (NArr typed) = nodeStrings [] typed)
   \<and> resultStrings jpath v (NMapS m) = Inr (map fst m)"
proof -
  have keys: "map fst (map (\<lambda>(k, x). (NStr k, x)) m) = map NStr (map fst m)"
    by (induction m) auto
  have maps: "nodeStrings [] [NMapI (map (\<lambda>(k, x). (NStr k, x)) m)] = Inr (map fst m)"
    by (simp add: keys assertStrings_strings del: map_map)
  have sets: "set m' = set m \<longrightarrow>
        (\<exists>ks ks'. nodeStrings [] [NMapS m] = Inr ks \<and> nodeStrings [] [NMapS m'] = Inr ks'
           \<and> set ks = set ks')"
    by simp
  have seq: "nodeStrings [] xs = Inr a \<and> nodeStrings [] ys = Inr b \<longrightarrow>
        nodeStrings [] (xs @ ys) = Inr (a @ b)"
    by (auto simp: nodeStrings_append)
  have other: "nodeStrings [] xs = Inr a \<and> otherType n \<longrightarrow>
        nodeStrings [] (xs @ n # zs) = Inl (UnexpectedNodeType n)"
    by (auto simp: nodeStrings_append nodeStrings_other)
  have fails: "n \<in> set raw \<and> otherType n \<longrightarrow> isl (nodeStrings [] raw)"
    using nodeStrings_fails by blast
  have result: "typed \<noteq> [] \<longrightarrow> resultStrings jpath v (NArr typed) = nodeStrings [] typed"
    by (simp add: resultStrings_def)
  have one: "resultStrings jpath v (NMapS m) = Inr (map fst m)"
    by (simp add: resultStrings_def)
  from nodeStrings_strings [of ss] maps sets seq other fails result one show ?thesis
    by simp
qed

theorem nodeStrings_extraction_witness:
  "nodeStrings [] (map NStr [''v1.0.0'', ''v1.1.0'']) = Inr [''v1.0.0'', ''v1.1.0'']
   \<and> nodeStrings [] [NMapS [(''1.1.0'', NNil), (''1.0.0'', NInt 7)]] = Inr [''1.1.0'', ''1.0.0'']
   \<and> set [(''1.0.0'', NInt 7), (''1.1.0'', NNil)] = set [(''1.1.0'', NNil), (''1.0.0'', NInt 7)]
   \<and> (\<exists>ks ks'. nodeStrings [] [NMapS [(''1.1.0'', NNil), (''1.0.0'', NInt 7)]] = Inr ks
        \<and> nodeStrings [] [NMapS [(''1.0.0'', NInt 7), (''1.1.0'', NNil)]] = Inr ks'
        \<and> set ks = set ks')
   \<and> nodeStrings [] [NStr ''0.9.0''] = Inr [''0.9.0'']
   \<and> otherType (NInt 3)
   \<and> nodeStrings [] ([NStr ''0.9.0''] @ NInt 3 # [NStr ''1.0.0''])
       = Inl (UnexpectedNodeType (NInt 3))
   \<and> NInt 3 \<in> set [NStr ''0.9.0'', NInt 3]
   \<and> isl (nodeStrings [] [NStr ''0.9.0'', NInt 3])
   \<and> [NStr ''0.9.0''] \<noteq> []
   \<and> resultStrings ''$'' (NArr [NStr ''0.9.0'']) (NArr [NStr ''0.9.0''])
       = nodeStrings [] [NStr ''0.9.0'']"
proof -
  have same: "set [(''1.0.0'', NInt 7), (''1.1.0'', NNil)]
      = set [(''1.1.0'', NNil), (''1.0.0'', NInt 7)]"
    by auto
  have first: "nodeStrings [] [NStr ''0.9.0''] = Inr [''0.9.0'']"
    by simp
  have other: "otherType (NInt 3)"
    by (simp add: otherType_def)
  have member: "NInt 3 \<in> set [NStr ''0.9.0'', NInt 3]"
    by simp
  have nonempty: "[NStr ''0.9.0''] \<noteq> []"
    by simp
  from
    nodeStrings_extraction [where ss = "[''v1.0.0'', ''v1.1.0'']"
      and m = "[(''1.1.0'', NNil), (''1.0.0'', NInt 7)]"
      and m' = "[(''1.0.0'', NInt 7), (''1.1.0'', NNil)]"
      and xs = "[NStr ''0.9.0'']" and a = "[''0.9.0'']"
      and ys = "[NStr ''0.9.0'']" and b = "[''0.9.0'']"
      and n = "NInt 3" and zs = "[NStr ''1.0.0'']" and raw = "[NStr ''0.9.0'', NInt 3]"
      and typed = "[NStr ''0.9.0'']" and jpath = "''$''" and v = "NArr [NStr ''0.9.0'']"]
    same first other member nonempty
  show ?thesis
    by simp
qed

subsection \<open>Lines of standard output\<close>








subsection \<open>The latest release\<close>

lemma foldl_latestStep_no_match:
  assumes "\<forall>r\<in>set all. \<not> Check L cons (Semver r)"
  shows "foldl (latestStep L cons) st all = st"
  using assms by (induction all arbitrary: st) (auto simp: latestStep_def)

lemma sublist_joinWith:
  assumes "v \<in> set vers"
  shows "sublist v (joinWith sep vers)"
  using assms
proof (induction sep vers rule: joinWith.induct)
  case (1 sep)
  then show ?case by simp
next
  case (2 sep x)
  then show ?case by simp
next
  case (3 sep x y ys)
  show ?case
  proof (cases "v = x")
    case True
    then show ?thesis by simp
  next
    case False
    with 3 have "sublist v (joinWith sep (y # ys))"
      by simp
    moreover have "sublist (joinWith sep (y # ys)) ((x @ sep) @ joinWith sep (y # ys))"
      by (rule sublist_append_leftI)
    ultimately have "sublist v ((x @ sep) @ joinWith sep (y # ys))"
      by (rule sublist_order.order.trans)
    then show ?thesis by simp
  qed
qed

lemma sublist_formatStrings:
  assumes "v \<in> set vers"
  shows "sublist v (pref @ formatStrings vers)"
proof -
  from sublist_joinWith [OF assms, of "'' ''"] obtain a b where
    "joinWith '' '' vers = a @ v @ b"
    by (auto simp: sublist_def)
  then have "pref @ formatStrings vers = (pref @ ''['' @ a) @ v @ (b @ '']'')"
    by (simp add: formatStrings_def)
  then show ?thesis
    unfolding sublist_def by blast
qed

lemma GetReleases_fields:
  assumes "GetReleases L p = Inr rs" and "r \<in> set rs"
  shows "Version r = VersionString L (Semver r)" and "Description r = []"
proof -
  from GetReleases_Inr [OF assms(1)] obtain vs where "versionsToReleases L vs = Inr rs"
    by blast
  from versionsToReleases_Inr [OF this] assms(2) obtain v where "r = semverToRelease L v"
    by auto
  then show "Version r = VersionString L (Semver r)" and "Description r = []"
    by (simp_all add: semverToRelease_def)
qed

lemma latest_loop:
  assumes asym: "\<And>a b. LessThan L a b \<Longrightarrow> \<not> LessThan L b a"
    and negtrans: "\<And>a b c. LessThan L a c \<Longrightarrow> LessThan L a b \<or> LessThan L b c"
  shows "case snd (foldl (latestStep L cons) (ZeroVersion L, None) all) of
      None \<Rightarrow>
        fst (foldl (latestStep L cons) (ZeroVersion L, None) all) = ZeroVersion L
        \<and> (\<forall>r\<in>set all. Check L cons (Semver r) \<longrightarrow> \<not> LessThan L (ZeroVersion L) (Semver r))
    | Some b \<Rightarrow>
        fst (foldl (latestStep L cons) (ZeroVersion L, None) all) = Semver b
        \<and> b \<in> set all \<and> Check L cons (Semver b) \<and> LessThan L (ZeroVersion L) (Semver b)
        \<and> (\<forall>r\<in>set all. Check L cons (Semver r) \<longrightarrow> \<not> LessThan L (Semver b) (Semver r))"
proof (induction all rule: rev_induct)
  case Nil
  show ?case by simp
next
  case (snoc x xs)
  let ?st = "foldl (latestStep L cons) (ZeroVersion L, None) xs"
  show ?case
  proof (cases "Check L cons (Semver x) \<and> LessThan L (fst ?st) (Semver x)")
    case False
    then have same: "foldl (latestStep L cons) (ZeroVersion L, None) (xs @ [x]) = ?st"
      by (auto simp: latestStep_def)
    from snoc False show ?thesis
      unfolding same by (auto split: option.splits)
  next
    case True
    then have new: "foldl (latestStep L cons) (ZeroVersion L, None) (xs @ [x]) = (Semver x, Some x)"
      by (simp add: latestStep_def)
    have above: "\<not> LessThan L (Semver x) (Semver r)"
      if r: "r \<in> set xs" "Check L cons (Semver r)" for r
    proof
      assume less: "LessThan L (Semver x) (Semver r)"
      from True have "LessThan L (fst ?st) (Semver r) \<or> LessThan L (Semver r) (Semver x)"
        using negtrans by blast
      moreover have "\<not> LessThan L (fst ?st) (Semver r)"
        using snoc r by (auto split: option.splits)
      ultimately show False
        using less asym by blast
    qed
    have zero: "LessThan L (ZeroVersion L) (Semver x)"
    proof (cases "snd ?st")
      case None
      with snoc True show ?thesis by simp
    next
      case (Some b)
      with snoc have b: "fst ?st = Semver b" "LessThan L (ZeroVersion L) (Semver b)"
        by simp_all
      then have "LessThan L (ZeroVersion L) (Semver x) \<or> LessThan L (Semver x) (Semver b)"
        using negtrans by blast
      with True b asym show ?thesis by auto
    qed
    from True above zero asym show ?thesis
      unfolding new by auto
  qed
qed

text \<open>
  What \<open>Latest\<close> does get right: when \<open>LessThan\<close> is the strict part of a total
  preorder and some release that satisfies the constraint is above the zero version, the
  answer is a release that satisfies the constraint and that no such release exceeds.
\<close>

lemma selectLatest_maximal:
  assumes "\<And>a b. LessThan L a b \<Longrightarrow> \<not> LessThan L b a"
    and "\<And>a b c. LessThan L a c \<Longrightarrow> LessThan L a b \<or> LessThan L b c"
    and "r \<in> set all" and "Check L cons (Semver r)"
    and "LessThan L (ZeroVersion L) (Semver r)"
  shows "\<exists>best. selectLatest L constraint cons all = Inr best \<and> best \<in> set all
    \<and> Check L cons (Semver best)
    \<and> (\<forall>r'\<in>set all. Check L cons (Semver r') \<longrightarrow> \<not> LessThan L (Semver best) (Semver r'))"
  using latest_loop [of L cons all, OF assms(1,2)] assms(3-5)
  by (auto simp: selectLatest_def split: option.splits)

text \<open>
  What it misses: releases that are not above the zero version are passed over, whether
  or not they satisfy the constraint.
\<close>

lemma selectLatest_not_above_zero:
  assumes "\<forall>r\<in>set all. \<not> LessThan L (ZeroVersion L) (Semver r)"
  shows "selectLatest L constraint cons all
    = Inl (NoSemverMatching constraint (map (\<lambda>r. VersionString L (Semver r)) all))"
proof -
  from assms have "foldl (latestStep L cons) (ZeroVersion L, None) all = (ZeroVersion L, None)"
    by (induction all) (auto simp: latestStep_def)
  then show ?thesis
    by (simp add: selectLatest_def)
qed

lemma Latest_example:
  "Latest examplePackages
     (gitTracker (linesOf [''0.9.0'', ''1.0.0'', ''1.2.3'', ''2.0.0-rc.1''], [], None)) ''> 1.0.0''
   = Inr \<lparr>Semver = \<lparr>major = 1, minor = 2, patch = 3, pre = [], metadata = [],
                    original = ''1.2.3''\<rparr>,
           Version = ''1.2.3'', Description = []\<rparr>"
  by code_simp

text \<open>
  Claim C1. \<open>Latest\<close> does not always return the greatest release that satisfies the
  constraint: the loop starts from the zero version \<open>0.0.0\<close> and takes a release only
  when it is above what it holds, so a release \<open>0.0.0\<close> is never taken. With the one
  release \<open>0.0.0\<close> and the constraint \<open>>= 0.0.0\<close>, which that release satisfies, the
  answer is the error that nothing matches, with \<open>0.0.0\<close> in its list.
\<close>

theorem Latest_misses_version_zero:
  "GetReleases examplePackages (gitTracker (linesOf [''0.0.0''], [], None))
     = Inr [\<lparr>Semver = \<lparr>major = 0, minor = 0, patch = 0, pre = [], metadata = [],
                       original = ''0.0.0''\<rparr>,
              Version = ''0.0.0'', Description = []\<rparr>]
   \<and> NewConstraint examplePackages ''>= 0.0.0''
     = Inr (CGe, \<lparr>major = 0, minor = 0, patch = 0, pre = [], metadata = [],
                  original = ''0.0.0''\<rparr>)
   \<and> Check examplePackages
       (CGe, \<lparr>major = 0, minor = 0, patch = 0, pre = [], metadata = [], original = ''0.0.0''\<rparr>)
       \<lparr>major = 0, minor = 0, patch = 0, pre = [], metadata = [], original = ''0.0.0''\<rparr>
   \<and> Latest examplePackages (gitTracker (linesOf [''0.0.0''], [], None)) ''>= 0.0.0''
     = Inl (NoSemverMatching ''>= 0.0.0'' [''0.0.0''])"
  by code_simp

text \<open>
  Claim C3, as the code has it. When the constraint compiles, the releases are there and
  none of them satisfies the constraint, \<open>Latest\<close> returns the error
  \<open>no semver matching\<close>, made of the constraint (the default one for the empty
  constraint) and, for every release, the rendering of its parsed version, which is its
  \<open>Version\<close> field; each of these renderings is part of the message. The string the
  provider found is not: it is there only when the rendering gives it back.
\<close>

theorem Latest_no_match:
  assumes "NewConstraint L (if constraint = [] then ''> 0.0.0'' else constraint) = Inr cons"
    and "GetReleases L p = Inr all"
    and "\<forall>r\<in>set all. \<not> Check L cons (Semver r)"
  shows "Latest L p constraint
      = Inl (NoSemverMatching (if constraint = [] then ''> 0.0.0'' else constraint)
          (map (\<lambda>r. VersionString L (Semver r)) all))
    \<and> map (\<lambda>r. VersionString L (Semver r)) all = map Version all
    \<and> (\<forall>r\<in>set all. sublist (Version r)
         (Error L (NoSemverMatching (if constraint = [] then ''> 0.0.0'' else constraint)
            (map (\<lambda>r. VersionString L (Semver r)) all))))"
proof -
  let ?constraint = "if constraint = [] then ''> 0.0.0'' else constraint"
  let ?vers = "map (\<lambda>r. VersionString L (Semver r)) all"
  from foldl_latestStep_no_match [OF assms(3)]
  have "selectLatest L ?constraint cons all = Inl (NoSemverMatching ?constraint ?vers)"
    by (simp add: selectLatest_def)
  with assms(1,2) have result: "Latest L p constraint = Inl (NoSemverMatching ?constraint ?vers)"
    by (simp add: Latest_def Let_def)
  have strings: "?vers = map Version all"
    using GetReleases_fields(1) [OF assms(2)] by simp
  have "sublist (Version r) (Error L (NoSemverMatching ?constraint ?vers))"
    if "r \<in> set all" for r
  proof -
    from that have "Version r \<in> set ?vers"
      unfolding strings by simp
    from sublist_formatStrings [OF this, of "''no semver matching '' @ Quote L ?constraint @ '' found in ''"]
    show ?thesis by simp
  qed
  with result strings show ?thesis
    by blast
qed

theorem Latest_no_match_witness:
  "NewConstraint examplePackages (if ''> 1.0.0'' = [] then ''> 0.0.0'' else ''> 1.0.0'')
     = Inr (CGt, \<lparr>major = 1, minor = 0, patch = 0, pre = [], metadata = [],
                  original = ''1.0.0''\<rparr>)
   \<and> GetReleases examplePackages (gitTracker (linesOf [''1.0.0''], [], None))
     = Inr [\<lparr>Semver = \<lparr>major = 1, minor = 0, patch = 0, pre = [], metadata = [],
                       original = ''1.0.0''\<rparr>,
              Version = ''1.0.0'', Description = []\<rparr>]
   \<and> \<not> Check examplePackages
       (CGt, \<lparr>major = 1, minor = 0, patch = 0, pre = [], metadata = [], original = ''1.0.0''\<rparr>)
       \<lparr>major = 1, minor = 0, patch = 0, pre = [], metadata = [], original = ''1.0.0''\<rparr>
   \<and> Latest examplePackages (gitTracker (linesOf [''1.0.0''], [], None)) ''> 1.0.0''
     = Inl (NoSemverMatching ''> 1.0.0'' [''1.0.0''])
   \<and> sublist ''1.0.0''
       (Error examplePackages (NoSemverMatching ''> 1.0.0'' [''1.0.0'']))
   \<and> Error examplePackages (NoSemverMatching ''> 1.0.0'' [''1.0.0''])
     = ''no semver matching '' @ [CHR 0x22] @ ''> 1.0.0'' @ [CHR 0x22] @ '' found in [1.0.0]''"
proof -
  let ?v = "\<lparr>major = 1, minor = 0, patch = 0, pre = [], metadata = [], original = ''1.0.0''\<rparr>"
  let ?r = "\<lparr>Semver = ?v, Version = ''1.0.0'', Description = []\<rparr>"
  let ?p = "gitTracker (linesOf [''1.0.0''], [], None)"
  have cons: "NewConstraint examplePackages (if ''> 1.0.0'' = [] then ''> 0.0.0'' else ''> 1.0.0'')
      = Inr (CGt, ?v)"
    by code_simp
  have all: "GetReleases examplePackages ?p = Inr [?r]"
    by code_simp
  have fails: "\<not> Check examplePackages (CGt, ?v) ?v"
    by code_simp
  then have none: "\<forall>r\<in>set [?r]. \<not> Check examplePackages (CGt, ?v) (Semver r)"
    by simp
  have message: "Error examplePackages (NoSemverMatching ''> 1.0.0'' [''1.0.0''])
      = ''no semver matching '' @ [CHR 0x22] @ ''> 1.0.0'' @ [CHR 0x22] @ '' found in [1.0.0]''"
    by (simp add: examplePackages_def formatStrings_def)
  note no_match = Latest_no_match [OF cons all none]
  from no_match [THEN conjunct1] no_match [THEN conjunct2, THEN conjunct1]
  have latest: "Latest examplePackages ?p ''> 1.0.0''
      = Inl (NoSemverMatching ''> 1.0.0'' [''1.0.0''])"
    by simp
  from no_match [THEN conjunct2, THEN conjunct2] no_match [THEN conjunct2, THEN conjunct1]
  have part: "sublist ''1.0.0'' (Error examplePackages (NoSemverMatching ''> 1.0.0'' [''1.0.0'']))"
    by (simp del: Error.simps)
  from cons all fails latest part message show ?thesis
    by (simp del: Error.simps)
qed

text \<open>
  The one tag \<open>v1.0.0\<close> and the constraint \<open>> 1.0.0\<close>: the message lists \<open>1.0.0\<close>
  and does not hold the tag.
\<close>

theorem Latest_no_match_not_raw:
  "snd (exec (gitTracker (linesOf [''v1.0.0''], [], None))
       (gitTagsCommand ''github.com/demo/demo''))
     = Inr [''v1.0.0'']
   \<and> Latest examplePackages (gitTracker (linesOf [''v1.0.0''], [], None)) ''> 1.0.0''
     = Inl (NoSemverMatching ''> 1.0.0'' [''1.0.0''])
   \<and> Error examplePackages (NoSemverMatching ''> 1.0.0'' [''1.0.0''])
     = ''no semver matching '' @ [CHR 0x22] @ ''> 1.0.0'' @ [CHR 0x22] @ '' found in [1.0.0]''
   \<and> \<not> sublist ''v1.0.0''
       (Error examplePackages (NoSemverMatching ''> 1.0.0'' [''1.0.0'']))"
  by code_simp

subsection \<open>The fields of a release\<close>

text \<open>
  Claim C8, as the code has it. A release carries, next to its parsed version, the
  rendering of that parsed version, which is the version some string of the provider
  parsed to; the string of the provider itself is not a field of the release. With a
  package that renders a version without the leading \<open>v\<close> it tolerates, the registry's
  \<open>v1.0.0\<close> and \<open>v1.1.0\<close> become releases with the versions \<open>1.0.0\<close> and \<open>1.1.0\<close>.
\<close>

theorem Release_Version_is_rendering:
  assumes "versionsToReleases L vs = Inr rs"
  shows "\<forall>r\<in>set rs. Version r = VersionString L (Semver r)
           \<and> (\<exists>s\<in>set vs. NewVersion L s = Inr (Semver r))"
proof
  fix r assume r: "r \<in> set rs"
  from versionsToReleases_Inr [OF assms] obtain vss where
    vss: "map (NewVersion L) vs = map Inr vss"
      "rs = map (semverToRelease L) (sortVersions (LessThan L) vss)"
    by blast
  with r obtain v where v: "v \<in> set vss" "r = semverToRelease L v"
    by (auto simp: set_sortVersions)
  from v(1) have "Inr v \<in> set (map (NewVersion L) vs)"
    unfolding vss(1) by simp
  then obtain s where "s \<in> set vs" "NewVersion L s = Inr v"
    by auto
  with v(2) show "Version r = VersionString L (Semver r)
      \<and> (\<exists>s\<in>set vs. NewVersion L s = Inr (Semver r))"
    by (auto simp: semverToRelease_def)
qed

theorem Release_Version_is_rendering_witness:
  "versionsToReleases examplePackages [''v1.2.3'']
     = Inr [\<lparr>Semver = \<lparr>major = 1, minor = 2, patch = 3, pre = [], metadata = [],
                       original = ''v1.2.3''\<rparr>,
              Version = ''1.2.3'', Description = []\<rparr>]
   \<and> VersionString examplePackages
       \<lparr>major = 1, minor = 2, patch = 3, pre = [], metadata = [], original = ''v1.2.3''\<rparr>
     = ''1.2.3''
   \<and> (\<exists>s\<in>set [''v1.2.3'']. NewVersion examplePackages s
        = Inr \<lparr>major = 1, minor = 2, patch = 3, pre = [], metadata = [],
                original = ''v1.2.3''\<rparr>)"
proof -
  have releases: "versionsToReleases examplePackages [''v1.2.3'']
     = Inr [\<lparr>Semver = \<lparr>major = 1, minor = 2, patch = 3, pre = [], metadata = [],
                       original = ''v1.2.3''\<rparr>,
              Version = ''1.2.3'', Description = []\<rparr>]"
    by code_simp
  from Release_Version_is_rendering [OF releases] releases show ?thesis
    by simp
qed

text \<open>
  The registry example: the provider's strings begin with \<open>v\<close>, the versions of the
  releases do not.
\<close>

theorem Release_Version_not_raw:
  "extractVersionStrings examplePackages registryDocument ''$.results[*].name''
     = Inr [''v1.0.0'', ''v1.1.0'']
   \<and> map Version (projr (GetReleases examplePackages registryTracker)) = [''1.0.0'', ''1.1.0'']
   \<and> GetReleases examplePackages registryTracker
     = Inr [\<lparr>Semver = \<lparr>major = 1, minor = 0, patch = 0, pre = [], metadata = [],
                       original = ''v1.0.0''\<rparr>,
              Version = ''1.0.0'', Description = []\<rparr>,
            \<lparr>Semver = \<lparr>major = 1, minor = 1, patch = 0, pre = [], metadata = [],
                       original = ''v1.1.0''\<rparr>,
              Version = ''1.1.0'', Description = []\<rparr>]
   \<and> ''1.0.0'' \<noteq> ''v1.0.0''"
  by code_simp

text \<open>
  Claim C9, as the code has it. No provider reads the description of the source: every
  release that \<open>GetReleases\<close> returns has the empty description, also when the jsonPath
  source declares one.
\<close>

theorem GetReleases_Description_empty:
  assumes "GetReleases L p = Inr rs"
  shows "\<forall>r\<in>set rs. Description r = []"
  using GetReleases_fields(2) [OF assms] by blast

theorem GetReleases_Description_empty_witness:
  "GetReleases examplePackages fileTracker
     = Inr [\<lparr>Semver = \<lparr>major = 0, minor = 9, patch = 0, pre = [], metadata = [],
                       original = ''0.9.0''\<rparr>,
              Version = ''0.9.0'', Description = []\<rparr>,
            \<lparr>Semver = \<lparr>major = 1, minor = 2, patch = 3, pre = [], metadata = [],
                       original = ''1.2.3''\<rparr>,
              Version = ''1.2.3'', Description = []\<rparr>]
   \<and> list_all (\<lambda>r. Description r = [])
       [\<lparr>Semver = \<lparr>major = 0, minor = 9, patch = 0, pre = [], metadata = [],
                  original = ''0.9.0''\<rparr>,
         Version = ''0.9.0'', Description = []\<rparr>,
        \<lparr>Semver = \<lparr>major = 1, minor = 2, patch = 3, pre = [], metadata = [],
                  original = ''1.2.3''\<rparr>,
         Version = ''1.2.3'', Description = []\<rparr>]"
proof -
  have releases: "GetReleases examplePackages fileTracker
     = Inr [\<lparr>Semver = \<lparr>major = 0, minor = 9, patch = 0, pre = [], metadata = [],
                       original = ''0.9.0''\<rparr>,
              Version = ''0.9.0'', Description = []\<rparr>,
            \<lparr>Semver = \<lparr>major = 1, minor = 2, patch = 3, pre = [], metadata = [],
                       original = ''1.2.3''\<rparr>,
              Version = ''1.2.3'', Description = []\<rparr>]"
    by code_simp
  from GetReleases_Description_empty [OF releases] releases show ?thesis
    by (simp add: list_all_iff)
qed

text \<open>
  The file example: the source declares the description \<open>demo releases\<close>, the releases
  have none.
\<close>

theorem Release_Description_not_declared:
  "JSONPath_Description (JSONPath (VersionsFrom (Spec fileTracker))) = ''demo releases''
   \<and> map Description (projr (GetReleases examplePackages fileTracker)) = [[], []]
   \<and> GetReleases examplePackages fileTracker
     = Inr [\<lparr>Semver = \<lparr>major = 0, minor = 9, patch = 0, pre = [], metadata = [],
                       original = ''0.9.0''\<rparr>,
              Version = ''0.9.0'', Description = []\<rparr>,
            \<lparr>Semver = \<lparr>major = 1, minor = 2, patch = 3, pre = [], metadata = [],
                       original = ''1.2.3''\<rparr>,
              Version = ''1.2.3'', Description = []\<rparr>]"
  by code_simp

end
